theory Spec2Isabelle
  imports Complex_Main "HOL-Library.Sublist"
begin

section \<open>Arrays\<close>

text \<open>
  A \<^verbatim>\<open>numpy.ndarray\<close> is a shape together with its elements in row-major order.
  The element type is left open: it stands for the 64-bit floats of the arrays.
  Every array that Python can build satisfies \<open>wf_ndarray\<close>.
\<close>

datatype 'a ndarray = NdArray (shape: "nat list") (data: "'a list")

definition wf_ndarray :: "'a ndarray \<Rightarrow> bool" where
  "wf_ndarray a = (length (data a) = prod_list (shape a))"

definition ndim :: "'a ndarray \<Rightarrow> nat" where
  "ndim a = length (shape a)"

definition size_nd :: "'a ndarray \<Rightarrow> nat" where
  "size_nd a = prod_list (shape a)"

text \<open>
  \<^verbatim>\<open>np.reshape(a, s)\<close> keeps the elements in row-major order. The evaluator only asks
  for the shape \<^verbatim>\<open>(a.size, 1)\<close>, which always fits.
\<close>

definition reshape :: "'a ndarray \<Rightarrow> nat list \<Rightarrow> 'a ndarray" where
  "reshape a s = NdArray s (data a)"

text \<open>Row-major offset of a multi-index, and the multi-index of an offset.\<close>

fun ravel :: "nat list \<Rightarrow> nat list \<Rightarrow> nat" where
  "ravel (n # ns) (i # js) = i * prod_list ns + ravel ns js"
| "ravel _ _ = 0"

fun unravel :: "nat list \<Rightarrow> nat \<Rightarrow> nat list" where
  "unravel [] k = []"
| "unravel (n # ns) k = (k div prod_list ns) # unravel ns (k mod prod_list ns)"

text \<open>
  \<^verbatim>\<open>a.T\<close> reverses the axes: the element at multi-index \<open>idx\<close> of the result is the
  element at \<open>rev idx\<close> of \<open>a\<close>. On a one-dimensional array it changes nothing.
\<close>

definition ndarray_T :: "'a ndarray \<Rightarrow> 'a ndarray" where
  "ndarray_T a =
     NdArray (rev (shape a))
       (map (\<lambda>k. data a ! ravel (shape a) (rev (unravel (rev (shape a)) k)))
            [0..<prod_list (shape a)])"

text \<open>Row \<open>i\<close> and column \<open>j\<close> (\<^verbatim>\<open>a[:, j]\<close>) of a two-dimensional array.\<close>

definition row :: "'a ndarray \<Rightarrow> nat \<Rightarrow> 'a list" where
  "row a i = take (shape a ! 1) (drop (i * (shape a ! 1)) (data a))"

definition rows :: "'a ndarray \<Rightarrow> 'a list list" where
  "rows a = map (row a) [0..<shape a ! 0]"

definition column :: "'a ndarray \<Rightarrow> nat \<Rightarrow> 'a list" where
  "column a j = map (\<lambda>i. data a ! (i * (shape a ! 1) + j)) [0..<shape a ! 0]"

text \<open>
  Boolean-mask indexing \<^verbatim>\<open>a[mask, :]\<close>: the rows whose mask entry is true, in order, as
  a new array. The evaluator builds the mask from an array with as many rows as \<open>a\<close>.
\<close>

fun compress :: "bool list \<Rightarrow> 'b list \<Rightarrow> 'b list" where
  "compress (b # bs) (x # xs) = (if b then x # compress bs xs else compress bs xs)"
| "compress _ _ = []"

definition mask_rows :: "bool list \<Rightarrow> 'a ndarray \<Rightarrow> 'a ndarray" where
  "mask_rows m a =
     (let kept = compress m (rows a)
      in NdArray [length kept, shape a ! 1] (concat kept))"

text \<open>An element-wise operation (\<^verbatim>\<open>a + eps\<close>, \<^verbatim>\<open>np.log(a)\<close>, ...) keeps the shape.\<close>

definition map_nd :: "('a \<Rightarrow> 'a) \<Rightarrow> 'a ndarray \<Rightarrow> 'a ndarray" where
  "map_nd f a = NdArray (shape a) (map f (data a))"

section \<open>The numeric primitives\<close>

text \<open>
  The floating-point operations the evaluator takes from numpy and from Python's
  \<^verbatim>\<open>float\<close>. They are parameters of the model, so that nothing proved below depends on
  how floating-point numbers round: \<open>np_mean\<close> is \<^verbatim>\<open>np.mean\<close> of all the elements of an
  array, \<open>np_bool\<close> the truth value of a float (false for zero only), \<open>np_0_01\<close> and
  \<open>np_1_0\<close> the literals \<^verbatim>\<open>0.01\<close> and \<^verbatim>\<open>1.0\<close>.
\<close>

record 'a numpy =
  np_isnan :: "'a \<Rightarrow> bool"
  np_mean :: "'a list \<Rightarrow> 'a"
  np_log :: "'a \<Rightarrow> 'a"
  np_sqrt :: "'a \<Rightarrow> 'a"
  np_add :: "'a \<Rightarrow> 'a \<Rightarrow> 'a"
  np_mul :: "'a \<Rightarrow> 'a \<Rightarrow> 'a"
  np_div :: "'a \<Rightarrow> 'a \<Rightarrow> 'a"
  np_0_01 :: 'a
  np_1_0 :: 'a
  np_bool :: "'a \<Rightarrow> bool"

section \<open>The evaluator\<close>

text \<open>
  The exceptions of a call. The function itself raises the first two; the last two come
  from numpy's handling of a floating-point condition, which depends on state outside
  the arguments and is modelled further below, with the state of a call.
\<close>

datatype error = AssertionError | Exception string | FloatingPointError | RuntimeWarning

type_synonym 'a obj_fn = "'a ndarray \<Rightarrow> 'a ndarray \<Rightarrow> error + 'a ndarray"

text \<open>Lines 102 to 113: the evaluation data as one column.\<close>

definition normalize_eval :: "int \<Rightarrow> 'a ndarray \<Rightarrow> error + 'a ndarray" where
  "normalize_eval axis evaluation =
     (case (if ndim evaluation = 1
            then Inr (reshape evaluation [size_nd evaluation, 1])
            else if ndim evaluation = 2 then
              (if axis = 0 then Inr evaluation else Inr (ndarray_T evaluation))
            else Inl (Exception ''evaluation array contains more than 2 dimensions'')) of
        Inl e \<Rightarrow> Inl e
      | Inr my_eval \<Rightarrow>
          if \<not> shape my_eval ! 1 = 1
          then Inl (Exception ''evaluation array is not flat'')
          else Inr my_eval)"

text \<open>Lines 115 to 124: the simulation data, time along the rows.\<close>

definition normalize_simu :: "int \<Rightarrow> 'a ndarray \<Rightarrow> error + 'a ndarray" where
  "normalize_simu axis simulations =
     (if ndim simulations = 1 then Inr (reshape simulations [size_nd simulations, 1])
      else if ndim simulations = 2 then
        (if axis = 0 then Inr simulations else Inr (ndarray_T simulations))
      else Inl (Exception ''simulation array contains more than 2 dimensions''))"

text \<open>Lines 131 to 134: the rows where evaluation data is available.\<close>

definition pairwise_deletion ::
  "'a numpy \<Rightarrow> 'a ndarray \<Rightarrow> 'a ndarray \<Rightarrow> 'a ndarray \<times> 'a ndarray" where
  "pairwise_deletion np my_simu my_eval =
     (let my_simu' = mask_rows (map (\<lambda>v. \<not> np_isnan np v) (column my_eval 0)) my_simu;
          my_eval' = mask_rows (map (\<lambda>v. \<not> np_isnan np v) (column my_eval 0)) my_eval
      in (my_simu', my_eval'))"

text \<open>
  Python's \<^verbatim>\<open>not epsilon\<close>: true for \<^verbatim>\<open>None\<close> and for a float that is zero.
\<close>

definition py_not :: "'a numpy \<Rightarrow> 'a option \<Rightarrow> bool" where
  "py_not np epsilon = (case epsilon of None \<Rightarrow> True | Some e \<Rightarrow> \<not> np_bool np e)"

text \<open>Lines 136 to 150: the transformation of both series.\<close>

definition apply_transform ::
  "'a numpy \<Rightarrow> string option \<Rightarrow> 'a option \<Rightarrow> 'a ndarray \<times> 'a ndarray \<Rightarrow>
   'a ndarray \<times> 'a ndarray" where
  "apply_transform np transform epsilon p =
     (case p of (my_simu, my_eval) \<Rightarrow>
       if transform = Some ''log'' then
         let eps = (if py_not np epsilon
                    then np_mul np (np_0_01 np) (np_mean np (data my_eval))
                    else the epsilon)
         in (map_nd (\<lambda>v. np_log np (np_add np v eps)) my_simu,
             map_nd (\<lambda>v. np_log np (np_add np v eps)) my_eval)
       else if transform = Some ''inv'' then
         let eps = (if py_not np epsilon
                    then np_mul np (np_0_01 np) (np_mean np (data my_eval))
                    else the epsilon)
         in (map_nd (\<lambda>v. np_div np (np_1_0 np) (np_add np v eps)) my_simu,
             map_nd (\<lambda>v. np_div np (np_1_0 np) (np_add np v eps)) my_eval)
       else if transform = Some ''sqrt'' then
         (map_nd (np_sqrt np) my_simu, map_nd (np_sqrt np) my_eval)
       else (my_simu, my_eval))"

text \<open>
  The whole function. The objective function is any function of the two matrices that
  returns an array or raises; an error it raises goes through to the caller.
\<close>

definition evaluator ::
  "'a numpy \<Rightarrow> 'a obj_fn \<Rightarrow> 'a ndarray \<Rightarrow> 'a ndarray \<Rightarrow> int \<Rightarrow> string option \<Rightarrow>
   'a option \<Rightarrow> error + 'a ndarray" where
  "evaluator np obj_fn simulations evaluation axis transform epsilon =
     (if \<not> (axis = 0 \<or> axis = 1) then Inl AssertionError
      else case normalize_eval axis evaluation of
        Inl e \<Rightarrow> Inl e
      | Inr my_eval \<Rightarrow>
         (case normalize_simu axis simulations of
            Inl e \<Rightarrow> Inl e
          | Inr my_simu \<Rightarrow>
             if \<not> shape my_simu ! 0 = shape my_eval ! 0
             then Inl (Exception
               ''simulation and evaluation arrays feature incompatible dimensions'')
             else
               (case apply_transform np transform epsilon
                       (pairwise_deletion np my_simu my_eval) of
                  (my_simu', my_eval') \<Rightarrow>
                    if axis = 0 then obj_fn my_simu' my_eval'
                    else map_sum id ndarray_T (obj_fn my_simu' my_eval'))))"

section \<open>The evaluator on a store\<close>

text \<open>
  To speak about what a call does to the caller's arrays and to the state around it, the
  same function is modelled once more on an explicit store. The store is the list of the
  buffers allocated so far; the address of a buffer is its position, so an allocation
  appends a buffer and a fresh address is never below the length of the store.
\<close>

type_synonym 'a heap = "'a list list"










text \<open>Every buffer of \<open>h\<close> is still there in \<open>h'\<close>, with the same elements.\<close>

definition preserves :: "'a heap \<Rightarrow> 'a heap \<Rightarrow> bool" where
  "preserves h h' = (length h \<le> length h' \<and> take (length h) h' = h)"

section \<open>Floating-point conditions, warnings and the state of a call\<close>

text \<open>
  The operations of lines 141 to 150 (\<^verbatim>\<open>np.mean\<close>, the scalar product, \<^verbatim>\<open>+\<close>,
  \<^verbatim>\<open>np.log\<close>, \<^verbatim>\<open>/\<close>, \<^verbatim>\<open>np.sqrt\<close>) can signal a floating-point condition. What
  numpy then does is set by its error state (\<^verbatim>\<open>np.seterr\<close>, \<^verbatim>\<open>np.errstate\<close>), one mode
  for each of the four kinds of condition.
\<close>

datatype fp_error = DivideByZero | Overflow | Underflow | InvalidValue

datatype err_mode = Ignore | Warn | Raise | Call | Print | Log

text \<open>
  In the mode \<open>Warn\<close> a \<^verbatim>\<open>RuntimeWarning\<close> goes through Python's warnings filter, which
  turns it into an exception, drops it, or shows it.
\<close>

datatype warn_action = WarnError | WarnIgnore | WarnShow

text \<open>
  What a call makes observable besides its result: a warning shown, or the error
  callback, the printing or the logging of the modes \<open>Call\<close>, \<open>Print\<close> and \<open>Log\<close> (what
  the callback or the log object then does is not modelled).
\<close>

datatype event = Warning string | ErrCall string | ErrPrint string | ErrLog string

text \<open>
  The state a call runs in: the store of buffers, numpy's error state, the action of the
  warnings filter on a \<^verbatim>\<open>RuntimeWarning\<close>, and the events emitted so far.
\<close>

record 'a world =
  heap :: "'a heap"
  errstate :: "fp_error \<Rightarrow> err_mode"
  warn_filter :: warn_action
  events :: "event list"

























section \<open>The objective functions\<close>

text \<open>
  Modelled from the spec: the mean of a series, for the objective functions, which are not
  among the source files (only their test is).
\<close>

definition mean_real :: "real list \<Rightarrow> real" where
  "mean_real xs = sum_list xs / real (length xs)"

text \<open>
  Modelled from the spec: the objective function NSE of section 4.2, which is not among the source
  files, for one simulated column \<open>S\<close> against the evaluation column \<open>E\<close>, over the real
  numbers: \<open>1 - \<Sum>(S - E)\<^sup>2 / \<Sum>(E - mean E)\<^sup>2\<close>. Division by zero is not guarded in
  the spec and gives a score that is not finite; it is \<open>None\<close> here.
\<close>

definition nse :: "real list \<Rightarrow> real list \<Rightarrow> real option" where
  "nse S E =
     (let d = (\<Sum>e\<leftarrow>E. (e - mean_real E)\<^sup>2)
      in if d = 0 then None
         else Some (1 - (\<Sum>(s, e)\<leftarrow>zip S E. (s - e)\<^sup>2) / d))"

text \<open>
  Modelled from the spec: the objective function KGE of section 4.2, which is not among the source
  files: \<open>1 - sqrt ((r - 1)\<^sup>2 + (\<alpha> - 1)\<^sup>2 + (\<beta> - 1)\<^sup>2)\<close>, as a function of its three
  finite components (correlation, ratio of standard deviations, ratio of means).
\<close>

definition kge :: "real \<Rightarrow> real \<Rightarrow> real \<Rightarrow> real" where
  "kge r alpha beta = 1 - sqrt ((r - 1)\<^sup>2 + (alpha - 1)\<^sup>2 + (beta - 1)\<^sup>2)"

text \<open>
  Modelled from the spec: the objective function KGE' of section 4.2, which is not among the
  source files: the same decomposition with the ratio of the coefficients of variation
  in place of \<open>\<alpha>\<close>.
\<close>

definition kgeprime :: "real \<Rightarrow> real \<Rightarrow> real \<Rightarrow> real" where
  "kgeprime r gamma beta = 1 - sqrt ((r - 1)\<^sup>2 + (gamma - 1)\<^sup>2 + (beta - 1)\<^sup>2)"

text \<open>
  Modelled from the spec: the objective function KGE-NP of section 4.2, which is not among the
  source files: the same decomposition with the rank correlation and the
  flow-duration-curve alpha as components.
\<close>

definition kgenp :: "real \<Rightarrow> real \<Rightarrow> real \<Rightarrow> real" where
  "kgenp r alpha_fdc beta = 1 - sqrt ((r - 1)\<^sup>2 + (alpha_fdc - 1)\<^sup>2 + (beta - 1)\<^sup>2)"

text \<open>
  Modelled from the spec: the bounded transform of the \<open>_c2m\<close> variants of section 4.2, which are not
  among the source files: \<open>score / (2 - score)\<close>.
\<close>

definition c2m :: "real \<Rightarrow> real" where
  "c2m score = score / (2 - score)"

text \<open>
  Modelled from the spec: the variant \<open>nse_c2m\<close> of section 4.2, not among the source files: the
  transform applied to the NSE score.
\<close>

definition nse_c2m :: "real list \<Rightarrow> real list \<Rightarrow> real option" where
  "nse_c2m S E = map_option c2m (nse S E)"

text \<open>
  Modelled from the spec: the variant \<open>kge_c2m\<close> of section 4.2, not among the source files.
\<close>

definition kge_c2m :: "real \<Rightarrow> real \<Rightarrow> real \<Rightarrow> real" where
  "kge_c2m r alpha beta = c2m (kge r alpha beta)"

text \<open>
  Modelled from the spec: the variant \<open>kgeprime_c2m\<close> of section 4.2, not among the source files.
\<close>

definition kgeprime_c2m :: "real \<Rightarrow> real \<Rightarrow> real \<Rightarrow> real" where
  "kgeprime_c2m r gamma beta = c2m (kgeprime r gamma beta)"

text \<open>
  Modelled from the spec: the variant \<open>kgenp_c2m\<close> of section 4.2, not among the source files.
\<close>

definition kgenp_c2m :: "real \<Rightarrow> real \<Rightarrow> real \<Rightarrow> real" where
  "kgenp_c2m r alpha_fdc beta = c2m (kgenp r alpha_fdc beta)"

section \<open>An instance of the primitives for the examples\<close>

text \<open>
  The examples below run the evaluator on exact real numbers extended with one NaN
  (an operation outside its domain gives NaN; infinities are not represented). The
  theorems themselves hold for every choice of the primitives.
\<close>

datatype flt = NaN | Fin real

fun lift2 :: "(real \<Rightarrow> real \<Rightarrow> real) \<Rightarrow> flt \<Rightarrow> flt \<Rightarrow> flt" where
  "lift2 f (Fin x) (Fin y) = Fin (f x y)"
| "lift2 f _ _ = NaN"

fun flt_log :: "flt \<Rightarrow> flt" where
  "flt_log (Fin x) = (if 0 < x then Fin (ln x) else NaN)"
| "flt_log NaN = NaN"

fun flt_sqrt :: "flt \<Rightarrow> flt" where
  "flt_sqrt (Fin x) = (if 0 \<le> x then Fin (sqrt x) else NaN)"
| "flt_sqrt NaN = NaN"

fun flt_div :: "flt \<Rightarrow> flt \<Rightarrow> flt" where
  "flt_div (Fin x) (Fin y) = (if y = 0 then NaN else Fin (x / y))"
| "flt_div _ _ = NaN"

fun flt_sum :: "flt list \<Rightarrow> flt" where
  "flt_sum [] = Fin 0"
| "flt_sum (v # vs) = lift2 (+) v (flt_sum vs)"

definition flt_mean :: "flt list \<Rightarrow> flt" where
  "flt_mean vs = flt_div (flt_sum vs) (Fin (real (length vs)))"

definition exact :: "flt numpy" where
  "exact = \<lparr> np_isnan = (\<lambda>v. v = NaN), np_mean = flt_mean, np_log = flt_log,
     np_sqrt = flt_sqrt, np_add = lift2 (+), np_mul = lift2 (*), np_div = flt_div,
     np_0_01 = Fin (1 / 100), np_1_0 = Fin 1, np_bool = (\<lambda>v. v \<noteq> Fin 0) \<rparr>"











section \<open>Index arithmetic, transposition and masks\<close>

lemma unravel_valid: "k < prod_list s \<Longrightarrow> list_all2 (<) (unravel s k) s"
proof (induction s arbitrary: k)
  case Nil
  then show ?case by simp
next
  case (Cons n ns)
  then have pos: "0 < prod_list ns"
    by (cases "prod_list ns = 0") auto
  from Cons.prems have "k div prod_list ns < n"
    by (simp add: less_mult_imp_div_less)
  moreover have "k mod prod_list ns < prod_list ns"
    using pos by simp
  ultimately show ?case
    using Cons.IH by simp
qed

lemma ravel_unravel: "k < prod_list s \<Longrightarrow> ravel s (unravel s k) = k"
proof (induction s arbitrary: k)
  case Nil
  then show ?case by simp
next
  case (Cons n ns)
  then have pos: "0 < prod_list ns"
    by (cases "prod_list ns = 0") auto
  then have "ravel ns (unravel ns (k mod prod_list ns)) = k mod prod_list ns"
    using Cons.IH by simp
  then show ?case by simp
qed

lemma ravel_less: "list_all2 (<) idx s \<Longrightarrow> ravel s idx < prod_list s"
proof (induction idx s rule: list_all2_induct)
  case Nil
  then show ?case by simp
next
  case (Cons i idx n ns)
  have "i * prod_list ns + ravel ns idx < Suc i * prod_list ns"
    using Cons.IH by simp
  also have "\<dots> \<le> n * prod_list ns"
    using Cons.hyps(1) by (intro mult_le_mono1) simp
  finally show ?case by simp
qed

lemma unravel_ravel: "list_all2 (<) idx s \<Longrightarrow> unravel s (ravel s idx) = idx"
proof (induction idx s rule: list_all2_induct)
  case Nil
  then show ?case by simp
next
  case (Cons i idx n ns)
  have "ravel ns idx < prod_list ns"
    using Cons.hyps(2) by (rule ravel_less)
  then show ?case
    using Cons.IH by simp
qed

lemma ndarray_T_involutive:
  assumes "wf_ndarray a"
  shows "ndarray_T (ndarray_T a) = a"
proof -
  obtain s d where a: "a = NdArray s d" by (cases a)
  have len: "length d = prod_list s"
    using assms by (simp add: a wf_ndarray_def)
  define d' where "d' = map (\<lambda>k. d ! ravel s (rev (unravel (rev s) k))) [0..<prod_list s]"
  have at_k: "d' ! ravel (rev s) (rev (unravel s k)) = d ! k" if "k < prod_list s" for k
  proof -
    have v: "list_all2 (<) (rev (unravel s k)) (rev s)"
      using unravel_valid [OF that] by (simp add: list_all2_rev)
    then have "ravel (rev s) (rev (unravel s k)) < prod_list s"
      using ravel_less [OF v] by simp
    then have "d' ! ravel (rev s) (rev (unravel s k)) =
               d ! ravel s (rev (unravel (rev s) (ravel (rev s) (rev (unravel s k)))))"
      by (simp add: d'_def)
    also have "\<dots> = d ! ravel s (unravel s k)"
      by (simp add: unravel_ravel [OF v])
    also have "\<dots> = d ! k"
      by (simp add: ravel_unravel [OF that])
    finally show ?thesis .
  qed
  have "map (\<lambda>k. d' ! ravel (rev s) (rev (unravel s k))) [0..<prod_list s] =
        map (\<lambda>k. d ! k) [0..<prod_list s]"
    by (rule map_cong) (simp_all add: at_k)
  also have "\<dots> = d"
    unfolding len [symmetric] by (rule map_nth)
  finally show ?thesis
    by (simp add: a ndarray_T_def d'_def)
qed

lemma ndarray_T_1d:
  assumes "wf_ndarray a" and "ndim a = 1"
  shows "ndarray_T a = a"
proof -
  obtain s d where a: "a = NdArray s d" by (cases a)
  from assms(2) obtain n where s: "s = [n]"
    by (cases s) (auto simp add: a ndim_def)
  have len: "length d = n"
    using assms(1) by (simp add: a s wf_ndarray_def)
  have "map (\<lambda>k. d ! k) [0..<n] = d"
    unfolding len [symmetric] by (rule map_nth)
  then show ?thesis
    by (simp add: a s ndarray_T_def)
qed

lemma ndim_T: "ndim (ndarray_T a) = ndim a"
  by (simp add: ndim_def ndarray_T_def)

lemma compress_filter_index:
  "length m = length xs \<Longrightarrow> compress m xs = map ((!) xs) (filter ((!) m) [0..<length xs])"
proof (induction m xs rule: compress.induct)
  case (1 b bs x xs)
  have "[0..<length (x # xs)] = 0 # map Suc [0..<length xs]"
    by (simp add: upt_conv_Cons map_Suc_upt del: upt_Suc)
  then show ?case
    using 1 by (simp add: filter_map comp_def del: upt_Suc)
qed simp_all

section \<open>Views and the store\<close>
















lemma preserves_append: "preserves h (h @ xs)"
  by (simp add: preserves_def)












section \<open>Steps of a call\<close>































section \<open>Bounds on the scores\<close>

lemma c2m_range: "s \<le> 1 \<Longrightarrow> - 1 < c2m s \<and> c2m s \<le> 1"
proof -
  assume s: "s \<le> 1"
  then have pos: "0 < 2 - s" by simp
  have "- 1 < s / (2 - s)"
    using pos by (simp add: field_simps)
  moreover have "s / (2 - s) \<le> 1"
    using pos s by (simp add: field_simps)
  ultimately show ?thesis
    by (simp add: c2m_def)
qed

lemma sum_list_squares_nonneg: "0 \<le> (\<Sum>x\<leftarrow>xs. (f x)\<^sup>2 :: real)"
  by (rule sum_list_nonneg) auto

lemma nse_le_1: "nse S E = Some s \<Longrightarrow> s \<le> 1"
proof -
  assume h: "nse S E = Some s"
  define d where "d = (\<Sum>e\<leftarrow>E. (e - mean_real E)\<^sup>2)"
  define n where "n = (\<Sum>(s, e)\<leftarrow>zip S E. (s - e)\<^sup>2)"
  have "0 \<le> d"
    unfolding d_def by (rule sum_list_squares_nonneg)
  moreover have "0 \<le> n"
    unfolding n_def by (rule sum_list_nonneg) auto
  ultimately have "0 \<le> n / d"
    by simp
  moreover have "s = 1 - n / d"
    using h by (simp add: nse_def Let_def d_def n_def split: if_splits)
  ultimately show ?thesis by simp
qed

lemma kge_form_le_1: "1 - sqrt ((r - 1)\<^sup>2 + (a - 1)\<^sup>2 + (b - 1)\<^sup>2) \<le> (1::real)"
  by simp

section \<open>Shape normalisation and input errors\<close>

text \<open>
  C4. A one-dimensional evaluation array of length \<open>n\<close> and the same values reshaped to
  \<open>n\<close> rows and one column give the same result at \<open>axis = 0\<close>, whatever the other
  arguments are.
\<close>

theorem evaluation_1d_as_column:
  "evaluator np obj_fn simulations (NdArray [n] d) 0 transform epsilon =
   evaluator np obj_fn simulations (reshape (NdArray [n] d) [n, 1]) 0 transform epsilon"
proof -
  have "normalize_eval 0 (NdArray [n] d) = normalize_eval 0 (reshape (NdArray [n] d) [n, 1])"
    by (simp add: normalize_eval_def ndim_def reshape_def size_nd_def)
  then show ?thesis
    by (simp add: evaluator_def)
qed

text \<open>
  C5. When both inputs pass the shape normalisation and the normalised matrices differ in
  their number of rows, the evaluator raises the incompatible-dimensions error. The result
  does not depend on the objective function, the transformation or the primitives: none
  of them is reached, and no series is cut to the length of the other.
\<close>

theorem length_mismatch_rejected:
  assumes "axis = 0 \<or> axis = 1"
    and "normalize_eval axis evaluation = Inr my_eval"
    and "normalize_simu axis simulations = Inr my_simu"
    and "shape my_simu ! 0 \<noteq> shape my_eval ! 0"
  shows "evaluator np obj_fn simulations evaluation axis transform epsilon =
         Inl (Exception ''simulation and evaluation arrays feature incompatible dimensions'')"
  using assms by (simp add: evaluator_def)

theorem length_mismatch_rejected_witness:
  "normalize_eval 0 (NdArray [3] [Fin 1, Fin 2, Fin 3]) =
     Inr (NdArray [3, 1] [Fin 1, Fin 2, Fin 3]) \<and>
   normalize_simu 0 (NdArray [2] [Fin 1, Fin 2]) = Inr (NdArray [2, 1] [Fin 1, Fin 2]) \<and>
   evaluator exact (\<lambda>s e. Inr s) (NdArray [2] [Fin 1, Fin 2])
     (NdArray [3] [Fin 1, Fin 2, Fin 3]) 0 None None =
   Inl (Exception ''simulation and evaluation arrays feature incompatible dimensions'')"
proof -
  have e: "normalize_eval 0 (NdArray [3] [Fin 1, Fin 2, Fin 3]) =
           Inr (NdArray [3, 1] [Fin 1, Fin 2, Fin 3])"
    by (simp add: normalize_eval_def ndim_def reshape_def size_nd_def)
  have s: "normalize_simu 0 (NdArray [2] [Fin 1, Fin 2]) = Inr (NdArray [2, 1] [Fin 1, Fin 2])"
    by (simp add: normalize_simu_def ndim_def reshape_def size_nd_def)
  have n: "shape (NdArray [2, 1] [Fin 1, Fin 2]) ! 0 \<noteq>
           shape (NdArray [3, 1] [Fin 1, Fin 2, Fin 3]) ! 0"
    by simp
  show ?thesis
    using e s length_mismatch_rejected [OF _ e s n, of exact "\<lambda>s e. Inr s" None None]
    by simp
qed

text \<open>
  C6. A two-dimensional evaluation array that has more than one column once the time
  axis runs along the rows (as it is for \<open>axis = 0\<close>, transposed for \<open>axis = 1\<close>) is
  rejected with the not-flat error; no score is computed.
\<close>

theorem evaluation_not_flat_rejected:
  assumes "axis = 0 \<or> axis = 1"
    and "ndim evaluation = 2"
    and "1 < shape (if axis = 0 then evaluation else ndarray_T evaluation) ! 1"
  shows "evaluator np obj_fn simulations evaluation axis transform epsilon =
         Inl (Exception ''evaluation array is not flat'')"
  using assms by (auto simp add: evaluator_def normalize_eval_def)

theorem evaluation_not_flat_rejected_witness:
  "ndim (NdArray [10, 2] (replicate 20 (Fin 1))) = 2 \<and>
   evaluator exact (\<lambda>s e. Inr s) (NdArray [10] (replicate 10 (Fin 1)))
     (NdArray [10, 2] (replicate 20 (Fin 1))) 0 None None =
   Inl (Exception ''evaluation array is not flat'')"
  using evaluation_not_flat_rejected [of 0 "NdArray [10, 2] (replicate 20 (Fin 1))"
      exact "\<lambda>s e. Inr s" "NdArray [10] (replicate 10 (Fin 1))" None None]
  by (simp add: ndim_def)

section \<open>Pairwise deletion\<close>

text \<open>
  C1. When both inputs pass the shape normalisation and have the same number of rows, the
  rows kept by the pairwise deletion are the rows \<open>i\<close>, in increasing order, whose
  evaluation value is not NaN. The same rows are kept in both matrices; the values of
  the simulation matrix play no part in the choice. The objective function is called on
  the two reduced matrices (after the transformation, if any).
\<close>

theorem pairwise_deletion_rows:
  assumes "axis = 0 \<or> axis = 1"
    and "normalize_eval axis evaluation = Inr my_eval"
    and "normalize_simu axis simulations = Inr my_simu"
    and "shape my_simu ! 0 = shape my_eval ! 0"
  shows "let keep = filter (\<lambda>i. \<not> np_isnan np (column my_eval 0 ! i)) [0..<shape my_eval ! 0];
             simu' = NdArray [length keep, shape my_simu ! 1] (concat (map (row my_simu) keep));
             eval' = NdArray [length keep, shape my_eval ! 1] (concat (map (row my_eval) keep))
         in pairwise_deletion np my_simu my_eval = (simu', eval') \<and>
            evaluator np obj_fn simulations evaluation axis transform epsilon =
              (case apply_transform np transform epsilon (simu', eval') of
                 (s, e) \<Rightarrow> if axis = 0 then obj_fn s e
                           else map_sum id ndarray_T (obj_fn s e))"
proof -
  define n where "n = shape my_eval ! 0"
  define m where "m = map (\<lambda>v. \<not> np_isnan np v) (column my_eval 0)"
  define keep where "keep = filter (\<lambda>i. \<not> np_isnan np (column my_eval 0 ! i)) [0..<n]"
  have len_col: "length (column my_eval 0) = n"
    by (simp add: column_def n_def)
  have kept: "compress m (rows a) = map (row a) keep" if "shape a ! 0 = n" for a :: "'a ndarray"
  proof -
    have "length m = length (rows a)"
      using that by (simp add: m_def rows_def len_col)
    then have "compress m (rows a) =
               map ((!) (rows a)) (filter ((!) m) [0..<length (rows a)])"
      by (rule compress_filter_index)
    also have "filter ((!) m) [0..<length (rows a)] = keep"
      unfolding keep_def using that
      by (auto simp add: rows_def m_def len_col intro!: filter_cong)
    also have "map ((!) (rows a)) keep = map (row a) keep"
      using that by (auto simp add: rows_def keep_def)
    finally show ?thesis .
  qed
  have del: "pairwise_deletion np my_simu my_eval =
             (NdArray [length keep, shape my_simu ! 1] (concat (map (row my_simu) keep)),
              NdArray [length keep, shape my_eval ! 1] (concat (map (row my_eval) keep)))"
    using assms(4) by (simp add: pairwise_deletion_def mask_rows_def Let_def
        m_def [symmetric] kept n_def [symmetric])
  have "evaluator np obj_fn simulations evaluation axis transform epsilon =
        (case apply_transform np transform epsilon (pairwise_deletion np my_simu my_eval) of
           (s, e) \<Rightarrow> if axis = 0 then obj_fn s e else map_sum id ndarray_T (obj_fn s e))"
    using assms by (simp add: evaluator_def)
  then show ?thesis
    unfolding Let_def del keep_def n_def by simp
qed

theorem pairwise_deletion_rows_witness:
  "normalize_eval 0 (NdArray [3] [Fin 1, NaN, Fin 3]) = Inr (NdArray [3, 1] [Fin 1, NaN, Fin 3]) \<and>
   normalize_simu 0 (NdArray [3, 2] [NaN, Fin 10, Fin 2, Fin 20, Fin 3, Fin 30]) =
     Inr (NdArray [3, 2] [NaN, Fin 10, Fin 2, Fin 20, Fin 3, Fin 30]) \<and>
   pairwise_deletion exact (NdArray [3, 2] [NaN, Fin 10, Fin 2, Fin 20, Fin 3, Fin 30])
       (NdArray [3, 1] [Fin 1, NaN, Fin 3]) =
     (NdArray [2, 2] [NaN, Fin 10, Fin 3, Fin 30], NdArray [2, 1] [Fin 1, Fin 3]) \<and>
   evaluator exact (\<lambda>s e. Inr s) (NdArray [3, 2] [NaN, Fin 10, Fin 2, Fin 20, Fin 3, Fin 30])
       (NdArray [3] [Fin 1, NaN, Fin 3]) 0 None None =
     Inr (NdArray [2, 2] [NaN, Fin 10, Fin 3, Fin 30])"
proof -
  have e: "normalize_eval 0 (NdArray [3] [Fin 1, NaN, Fin 3]) =
           Inr (NdArray [3, 1] [Fin 1, NaN, Fin 3])"
    by (simp add: normalize_eval_def ndim_def reshape_def size_nd_def)
  have s: "normalize_simu 0 (NdArray [3, 2] [NaN, Fin 10, Fin 2, Fin 20, Fin 3, Fin 30]) =
           Inr (NdArray [3, 2] [NaN, Fin 10, Fin 2, Fin 20, Fin 3, Fin 30])"
    by (simp add: normalize_simu_def ndim_def)
  have n: "shape (NdArray [3, 2] [NaN, Fin 10, Fin 2, Fin 20, Fin 3, Fin 30]) ! 0 =
           shape (NdArray [3, 1] [Fin 1, NaN, Fin 3]) ! 0"
    by simp
  show ?thesis
    using e s pairwise_deletion_rows [OF _ e s n, of exact "\<lambda>s e. Inr s" None None]
    by (simp add: Let_def column_def row_def exact_def apply_transform_def upt_rec)
qed

section \<open>Transformations\<close>

text \<open>
  C2. With the transform \<open>'log'\<close> (and likewise \<open>'inv'\<close>) and no epsilon, the call gives
  the result of the call with epsilon set to 0.01 times the mean of the evaluation matrix
  left after the deletion, and the objective function receives both reduced matrices with
  every value \<open>v\<close> replaced by \<open>ln (v + epsilon)\<close> (by \<open>1 / (v + epsilon)\<close> for \<open>'inv'\<close>).
\<close>

theorem default_epsilon_from_mean:
  assumes "axis = 0 \<or> axis = 1"
    and "normalize_eval axis evaluation = Inr my_eval"
    and "normalize_simu axis simulations = Inr my_simu"
    and "shape my_simu ! 0 = shape my_eval ! 0"
  shows "case pairwise_deletion np my_simu my_eval of
           (simu', eval') \<Rightarrow>
             let eps = np_mul np (np_0_01 np) (np_mean np (data eval'))
             in evaluator np obj_fn simulations evaluation axis (Some ''log'') None =
                  evaluator np obj_fn simulations evaluation axis (Some ''log'') (Some eps) \<and>
                evaluator np obj_fn simulations evaluation axis (Some ''inv'') None =
                  evaluator np obj_fn simulations evaluation axis (Some ''inv'') (Some eps) \<and>
                evaluator np obj_fn simulations evaluation axis (Some ''log'') None =
                  (let r = obj_fn
                        (NdArray (shape simu')
                           (map (\<lambda>v. np_log np (np_add np v eps)) (data simu')))
                        (NdArray (shape eval')
                           (map (\<lambda>v. np_log np (np_add np v eps)) (data eval')))
                   in if axis = 0 then r else map_sum id ndarray_T r) \<and>
                evaluator np obj_fn simulations evaluation axis (Some ''inv'') None =
                  (let r = obj_fn
                        (NdArray (shape simu')
                           (map (\<lambda>v. np_div np (np_1_0 np) (np_add np v eps)) (data simu')))
                        (NdArray (shape eval')
                           (map (\<lambda>v. np_div np (np_1_0 np) (np_add np v eps)) (data eval')))
                   in if axis = 0 then r else map_sum id ndarray_T r)"
proof -
  obtain simu' eval' where del: "pairwise_deletion np my_simu my_eval = (simu', eval')"
    by (cases "pairwise_deletion np my_simu my_eval")
  define eps where "eps = np_mul np (np_0_01 np) (np_mean np (data eval'))"
  have run: "evaluator np obj_fn simulations evaluation axis transform epsilon =
        (case apply_transform np transform epsilon (simu', eval') of
           (s, e) \<Rightarrow> if axis = 0 then obj_fn s e else map_sum id ndarray_T (obj_fn s e))"
    for transform epsilon
    using assms by (simp add: evaluator_def del)
  have log_none: "apply_transform np (Some ''log'') None (simu', eval') =
        (map_nd (\<lambda>v. np_log np (np_add np v eps)) simu',
         map_nd (\<lambda>v. np_log np (np_add np v eps)) eval')"
    by (simp add: apply_transform_def py_not_def eps_def Let_def)
  have log_some: "apply_transform np (Some ''log'') (Some eps) (simu', eval') =
        apply_transform np (Some ''log'') None (simu', eval')"
    by (cases "np_bool np eps") (simp_all add: apply_transform_def py_not_def eps_def Let_def)
  have inv_none: "apply_transform np (Some ''inv'') None (simu', eval') =
        (map_nd (\<lambda>v. np_div np (np_1_0 np) (np_add np v eps)) simu',
         map_nd (\<lambda>v. np_div np (np_1_0 np) (np_add np v eps)) eval')"
    by (simp add: apply_transform_def py_not_def eps_def Let_def)
  have inv_some: "apply_transform np (Some ''inv'') (Some eps) (simu', eval') =
        apply_transform np (Some ''inv'') None (simu', eval')"
    by (cases "np_bool np eps") (simp_all add: apply_transform_def py_not_def eps_def Let_def)
  show ?thesis
    unfolding del prod.case Let_def eps_def [symmetric] run log_some inv_some
    unfolding log_none inv_none by (simp add: map_nd_def)
qed

text \<open>
  The example: the evaluation series 100, NaN, 100 leaves the mean 100 and the epsilon 1;
  the simulated values 0 and 3 that are kept become \<open>ln 1 = 0\<close> and \<open>ln 4\<close>, or \<open>1\<close> and
  \<open>1 / 4\<close>, and the evaluation values become \<open>ln 101\<close>, or \<open>1 / 101\<close>.
\<close>

theorem default_epsilon_from_mean_witness:
  "normalize_eval 0 (NdArray [3] [Fin 100, NaN, Fin 100]) = Inr (NdArray [3, 1] [Fin 100, NaN, Fin 100]) \<and>
   normalize_simu 0 (NdArray [3] [Fin 0, Fin 5, Fin 3]) = Inr (NdArray [3, 1] [Fin 0, Fin 5, Fin 3]) \<and>
   np_mul exact (np_0_01 exact) (np_mean exact [Fin 100, Fin 100]) = Fin 1 \<and>
   evaluator exact (\<lambda>s e. Inr s) (NdArray [3] [Fin 0, Fin 5, Fin 3]) (NdArray [3] [Fin 100, NaN, Fin 100]) 0 (Some ''log'') None =
     evaluator exact (\<lambda>s e. Inr s) (NdArray [3] [Fin 0, Fin 5, Fin 3]) (NdArray [3] [Fin 100, NaN, Fin 100]) 0 (Some ''log'') (Some (Fin 1)) \<and>
   evaluator exact (\<lambda>s e. Inr s) (NdArray [3] [Fin 0, Fin 5, Fin 3]) (NdArray [3] [Fin 100, NaN, Fin 100]) 0 (Some ''log'') None =
     Inr (NdArray [2, 1] [Fin 0, Fin (ln 4)]) \<and>
   evaluator exact (\<lambda>s e. Inr e) (NdArray [3] [Fin 0, Fin 5, Fin 3]) (NdArray [3] [Fin 100, NaN, Fin 100]) 0 (Some ''log'') None =
     Inr (NdArray [2, 1] [Fin (ln 101), Fin (ln 101)]) \<and>
   evaluator exact (\<lambda>s e. Inr s) (NdArray [3] [Fin 0, Fin 5, Fin 3]) (NdArray [3] [Fin 100, NaN, Fin 100]) 0 (Some ''inv'') None =
     Inr (NdArray [2, 1] [Fin 1, Fin (1 / 4)]) \<and>
   evaluator exact (\<lambda>s e. Inr e) (NdArray [3] [Fin 0, Fin 5, Fin 3]) (NdArray [3] [Fin 100, NaN, Fin 100]) 0 (Some ''inv'') None =
     Inr (NdArray [2, 1] [Fin (1 / 101), Fin (1 / 101)])"
proof -
  have e: "normalize_eval 0 (NdArray [3] [Fin 100, NaN, Fin 100]) = Inr (NdArray [3, 1] [Fin 100, NaN, Fin 100])"
    by (simp add: normalize_eval_def ndim_def reshape_def size_nd_def)
  have s: "normalize_simu 0 (NdArray [3] [Fin 0, Fin 5, Fin 3]) = Inr (NdArray [3, 1] [Fin 0, Fin 5, Fin 3])"
    by (simp add: normalize_simu_def ndim_def reshape_def size_nd_def)
  have n: "shape (NdArray [3, 1] [Fin 0, Fin 5, Fin 3]) ! 0 =
           shape (NdArray [3, 1] [Fin 100, NaN, Fin 100]) ! 0"
    by simp
  have d: "pairwise_deletion exact (NdArray [3, 1] [Fin 0, Fin 5, Fin 3])
             (NdArray [3, 1] [Fin 100, NaN, Fin 100]) =
           (NdArray [2, 1] [Fin 0, Fin 3], NdArray [2, 1] [Fin 100, Fin 100])"
    by (simp add: pairwise_deletion_def mask_rows_def rows_def row_def column_def exact_def
        Let_def upt_rec)
  have m: "np_mul exact (np_0_01 exact) (np_mean exact [Fin 100, Fin 100]) = Fin 1"
    by (simp add: exact_def flt_mean_def)
  have a: "(0::int) = 0 \<or> (0::int) = 1"
    by simp
  have p: "np_log exact (np_add exact (Fin x) (Fin 1)) = flt_log (Fin (x + 1))"
    "np_div exact (np_1_0 exact) (np_add exact (Fin x) (Fin 1)) = flt_div (Fin 1) (Fin (x + 1))"
    for x
    by (simp_all add: exact_def)
  note on_simu = default_epsilon_from_mean [OF a e s n, of exact "\<lambda>s e. Inr s",
      unfolded d prod.case Let_def]
  note on_eval = default_epsilon_from_mean [OF a e s n, of exact "\<lambda>s e. Inr e",
      unfolded d prod.case Let_def]
  have same: "evaluator exact (\<lambda>s e. Inr s) (NdArray [3] [Fin 0, Fin 5, Fin 3]) (NdArray [3] [Fin 100, NaN, Fin 100]) 0 (Some ''log'') None =
      evaluator exact (\<lambda>s e. Inr s) (NdArray [3] [Fin 0, Fin 5, Fin 3]) (NdArray [3] [Fin 100, NaN, Fin 100]) 0 (Some ''log'') (Some (Fin 1))"
    using on_simu m by simp
  have log_simu: "evaluator exact (\<lambda>s e. Inr s) (NdArray [3] [Fin 0, Fin 5, Fin 3]) (NdArray [3] [Fin 100, NaN, Fin 100]) 0 (Some ''log'') None =
      Inr (NdArray [2, 1] [Fin 0, Fin (ln 4)])"
    using on_simu [THEN conjunct2, THEN conjunct2, THEN conjunct1] m by (simp add: p)
  have log_eval: "evaluator exact (\<lambda>s e. Inr e) (NdArray [3] [Fin 0, Fin 5, Fin 3]) (NdArray [3] [Fin 100, NaN, Fin 100]) 0 (Some ''log'') None =
      Inr (NdArray [2, 1] [Fin (ln 101), Fin (ln 101)])"
    using on_eval [THEN conjunct2, THEN conjunct2, THEN conjunct1] m by (simp add: p)
  have inv_simu: "evaluator exact (\<lambda>s e. Inr s) (NdArray [3] [Fin 0, Fin 5, Fin 3]) (NdArray [3] [Fin 100, NaN, Fin 100]) 0 (Some ''inv'') None =
      Inr (NdArray [2, 1] [Fin 1, Fin (1 / 4)])"
    using on_simu [THEN conjunct2, THEN conjunct2, THEN conjunct2] m by (simp add: p)
  have inv_eval: "evaluator exact (\<lambda>s e. Inr e) (NdArray [3] [Fin 0, Fin 5, Fin 3]) (NdArray [3] [Fin 100, NaN, Fin 100]) 0 (Some ''inv'') None =
      Inr (NdArray [2, 1] [Fin (1 / 101), Fin (1 / 101)])"
    using on_eval [THEN conjunct2, THEN conjunct2, THEN conjunct2] m by (simp add: p)
  show ?thesis
    using e s m same log_simu log_eval inv_simu inv_eval by blast
qed

text \<open>
  C7. A transform argument other than \<open>None\<close>, \<open>'log'\<close>, \<open>'inv'\<close> and \<open>'sqrt'\<close> raises
  nothing and gives the result of the same call with \<open>transform = None\<close>.
\<close>

theorem unrecognised_transform_ignored:
  assumes "transform \<notin> {None, Some ''log'', Some ''inv'', Some ''sqrt''}"
  shows "evaluator np obj_fn simulations evaluation axis transform epsilon =
         evaluator np obj_fn simulations evaluation axis None epsilon"
proof -
  have same: "apply_transform np transform epsilon p = apply_transform np None epsilon p" for p
    using assms by (cases p) (simp add: apply_transform_def)
  show ?thesis
    unfolding evaluator_def same by (rule refl)
qed

theorem unrecognised_transform_ignored_witness:
  "Some ''boxcox'' \<notin> {None, Some ''log'', Some ''inv'', Some ''sqrt''} \<and>
   evaluator exact (\<lambda>s e. Inr s) (NdArray [2] [Fin 1, Fin 2]) (NdArray [2] [Fin 1, Fin 3])
     0 (Some ''boxcox'') None =
   evaluator exact (\<lambda>s e. Inr s) (NdArray [2] [Fin 1, Fin 2]) (NdArray [2] [Fin 1, Fin 3])
     0 None None"
  using unrecognised_transform_ignored [of "Some ''boxcox''" exact "\<lambda>s e. Inr s"
      "NdArray [2] [Fin 1, Fin 2]" "NdArray [2] [Fin 1, Fin 3]" 0 None]
  by simp

text \<open>
  C10. With the transform \<open>'log'\<close> or \<open>'inv'\<close>, an epsilon whose truth value is false
  (the float zero) is not used: the call gives the result of the call without epsilon,
  and the transformation adds 0.01 times the mean of the evaluation series left after
  the deletion.
\<close>

theorem falsy_epsilon_replaced_by_default:
  assumes "\<not> np_bool np e"
    and "transform = Some ''log'' \<or> transform = Some ''inv''"
  shows "evaluator np obj_fn simulations evaluation axis transform (Some e) =
         evaluator np obj_fn simulations evaluation axis transform None \<and>
         apply_transform np (Some ''log'') (Some e) (my_simu, my_eval) =
           (map_nd (\<lambda>v. np_log np (np_add np v
                (np_mul np (np_0_01 np) (np_mean np (data my_eval))))) my_simu,
            map_nd (\<lambda>v. np_log np (np_add np v
                (np_mul np (np_0_01 np) (np_mean np (data my_eval))))) my_eval) \<and>
         apply_transform np (Some ''inv'') (Some e) (my_simu, my_eval) =
           (map_nd (\<lambda>v. np_div np (np_1_0 np) (np_add np v
                (np_mul np (np_0_01 np) (np_mean np (data my_eval))))) my_simu,
            map_nd (\<lambda>v. np_div np (np_1_0 np) (np_add np v
                (np_mul np (np_0_01 np) (np_mean np (data my_eval))))) my_eval)"
proof -
  have same: "apply_transform np transform (Some e) p = apply_transform np transform None p" for p
    using assms by (cases p) (auto simp add: apply_transform_def py_not_def)
  have "evaluator np obj_fn simulations evaluation axis transform (Some e) =
        evaluator np obj_fn simulations evaluation axis transform None"
    unfolding evaluator_def same by (rule refl)
  then show ?thesis
    using assms(1) by (simp add: apply_transform_def py_not_def Let_def)
qed

theorem falsy_epsilon_replaced_by_default_witness:
  "\<not> np_bool exact (Fin 0) \<and>
   evaluator exact (\<lambda>s e. Inr s) (NdArray [2] [Fin 1, Fin 2]) (NdArray [2] [Fin 1, Fin 3])
     0 (Some ''log'') (Some (Fin 0)) =
   evaluator exact (\<lambda>s e. Inr s) (NdArray [2] [Fin 1, Fin 2]) (NdArray [2] [Fin 1, Fin 3])
     0 (Some ''log'') None"
proof -
  have z: "\<not> np_bool exact (Fin 0)"
    by (simp add: exact_def)
  show ?thesis
    using z falsy_epsilon_replaced_by_default [OF z, of "Some ''log''" "\<lambda>s e. Inr s"
        "NdArray [2] [Fin 1, Fin 2]" "NdArray [2] [Fin 1, Fin 3]" 0]
    by simp
qed

section \<open>Orientation\<close>

text \<open>
  C3. For well-formed arrays and an objective function that returns well-formed arrays,
  the call at \<open>axis = 0\<close> equals the transpose of the call at \<open>axis = 1\<close> on the
  transposed inputs; an error is the same error on both sides.
\<close>

theorem axis_symmetry:
  assumes "wf_ndarray simulations" and "wf_ndarray evaluation"
    and "\<And>s e r. obj_fn s e = Inr r \<Longrightarrow> wf_ndarray r"
  shows "evaluator np obj_fn simulations evaluation 0 transform epsilon =
         map_sum id ndarray_T
           (evaluator np obj_fn (ndarray_T simulations) (ndarray_T evaluation) 1
              transform epsilon)"
proof -
  have e: "normalize_eval 1 (ndarray_T evaluation) = normalize_eval 0 evaluation"
  proof (cases "ndim evaluation = 1")
    case True
    then show ?thesis
      by (simp add: ndarray_T_1d [OF assms(2)] normalize_eval_def)
  next
    case False
    then show ?thesis
      by (simp add: normalize_eval_def ndim_T ndarray_T_involutive [OF assms(2)])
  qed
  have s: "normalize_simu 1 (ndarray_T simulations) = normalize_simu 0 simulations"
  proof (cases "ndim simulations = 1")
    case True
    then show ?thesis
      by (simp add: ndarray_T_1d [OF assms(1)] normalize_simu_def)
  next
    case False
    then show ?thesis
      by (simp add: normalize_simu_def ndim_T ndarray_T_involutive [OF assms(1)])
  qed
  have twice: "map_sum id ndarray_T (map_sum id ndarray_T (obj_fn x y)) = obj_fn x y" for x y
    by (cases "obj_fn x y") (simp_all add: assms(3) ndarray_T_involutive)
  show ?thesis
    by (simp add: evaluator_def e s twice split: sum.splits prod.splits)
qed

theorem axis_symmetry_witness:
  "wf_ndarray (NdArray [3, 2] [Fin 1, Fin 10, Fin 2, Fin 20, Fin 3, Fin 30]) \<and>
   wf_ndarray (NdArray [3, 1] [Fin 1, NaN, Fin 3]) \<and>
   ndarray_T (NdArray [3, 2] [Fin 1, Fin 10, Fin 2, Fin 20, Fin 3, Fin 30]) =
     NdArray [2, 3] [Fin 1, Fin 2, Fin 3, Fin 10, Fin 20, Fin 30] \<and>
   evaluator exact (\<lambda>s e. if wf_ndarray s then Inr s else Inl AssertionError)
     (NdArray [3, 2] [Fin 1, Fin 10, Fin 2, Fin 20, Fin 3, Fin 30])
     (NdArray [3, 1] [Fin 1, NaN, Fin 3]) 0 None None =
   map_sum id ndarray_T
     (evaluator exact (\<lambda>s e. if wf_ndarray s then Inr s else Inl AssertionError)
        (ndarray_T (NdArray [3, 2] [Fin 1, Fin 10, Fin 2, Fin 20, Fin 3, Fin 30]))
        (ndarray_T (NdArray [3, 1] [Fin 1, NaN, Fin 3])) 1 None None)"
proof -
  have s: "wf_ndarray (NdArray [3, 2] [Fin 1, Fin 10, Fin 2, Fin 20, Fin 3, Fin 30])"
    by (simp add: wf_ndarray_def)
  have e: "wf_ndarray (NdArray [3, 1] [Fin 1, NaN, Fin 3])"
    by (simp add: wf_ndarray_def)
  have f: "wf_ndarray r"
    if "(\<lambda>s e. if wf_ndarray s then Inr s else Inl AssertionError) x y = Inr r"
    for x y :: "flt ndarray" and r
    using that by (simp split: if_splits)
  have t: "ndarray_T (NdArray [3, 2] [Fin 1, Fin 10, Fin 2, Fin 20, Fin 3, Fin 30]) =
           NdArray [2, 3] [Fin 1, Fin 2, Fin 3, Fin 10, Fin 20, Fin 30]"
    by (simp add: ndarray_T_def upt_rec)
  show ?thesis
    using s e t axis_symmetry [OF s e f, where np = exact and transform = None and epsilon = None]
    by simp
qed

section \<open>Frame and purity\<close>




section \<open>The bounded variants\<close>

text \<open>
  C9. For a finite base score \<open>s\<close> of NSE, KGE, KGE' or KGE-NP, the \<open>_c2m\<close> variant is
  \<open>s / (2 - s)\<close>, and it is greater than -1 and at most 1.
\<close>

theorem c2m_bounded:
  "(nse S E = Some s \<longrightarrow>
      nse_c2m S E = Some (s / (2 - s)) \<and> - 1 < s / (2 - s) \<and> s / (2 - s) \<le> 1) \<and>
   kge_c2m r a b = kge r a b / (2 - kge r a b) \<and>
     - 1 < kge_c2m r a b \<and> kge_c2m r a b \<le> 1 \<and>
   kgeprime_c2m r a b = kgeprime r a b / (2 - kgeprime r a b) \<and>
     - 1 < kgeprime_c2m r a b \<and> kgeprime_c2m r a b \<le> 1 \<and>
   kgenp_c2m r a b = kgenp r a b / (2 - kgenp r a b) \<and>
     - 1 < kgenp_c2m r a b \<and> kgenp_c2m r a b \<le> 1"
proof -
  have n: "nse_c2m S E = Some (s / (2 - s)) \<and> - 1 < s / (2 - s) \<and> s / (2 - s) \<le> 1"
    if "nse S E = Some s"
    using that c2m_range [OF nse_le_1 [OF that]] by (simp add: nse_c2m_def c2m_def)
  have k: "- 1 < kge_c2m r a b \<and> kge_c2m r a b \<le> 1"
    unfolding kge_c2m_def kge_def by (rule c2m_range) (rule kge_form_le_1)
  have k': "- 1 < kgeprime_c2m r a b \<and> kgeprime_c2m r a b \<le> 1"
    unfolding kgeprime_c2m_def kgeprime_def by (rule c2m_range) (rule kge_form_le_1)
  have k'': "- 1 < kgenp_c2m r a b \<and> kgenp_c2m r a b \<le> 1"
    unfolding kgenp_c2m_def kgenp_def by (rule c2m_range) (rule kge_form_le_1)
  show ?thesis
    using n k k' k'' by (simp add: kge_c2m_def kgeprime_c2m_def kgenp_c2m_def c2m_def)
qed

text \<open>
  The example also checks the transform against the values the repository's test expects
  for \<open>nse\<close> and \<open>nse_c2m\<close> on its fixture, to the seven decimals the test compares.
\<close>

theorem c2m_bounded_witness:
  "nse [2, 2, 4] [1, 2, 3] = Some 0 \<and> nse_c2m [2, 2, 4] [1, 2, 3] = Some 0 \<and>
   - 1 < kge_c2m 0 0 0 \<and> kge_c2m 0 0 0 \<le> 1 \<and>
   \<bar>c2m (- 0.4147181744134911) - (- 0.17174599454622552)\<bar> < 1 / 10 ^ 7"
proof -
  have h: "nse [2, 2, 4] [1, 2, 3] = Some 0"
    by (simp add: nse_def mean_real_def Let_def power2_eq_square)
  have t: "\<bar>c2m (- 0.4147181744134911) - (- 0.17174599454622552)\<bar> < 1 / 10 ^ 7"
    by (simp add: c2m_def)
  show ?thesis
    using h t c2m_bounded [of "[2, 2, 4]" "[1, 2, 3]" 0 0 0 0]
    by simp
qed

end
